theory Spec2Isabelle
  imports Complex_Main "HOL-Library.Monad_Syntax"
begin

section \<open>JavaScript numbers\<close>

text \<open>
  A JavaScript number is an IEEE-754 double. The model keeps its four kinds of value
  apart: a finite number, the two infinities and NaN. Finite arithmetic is exact (a
  finite value is a real: rounding, overflow to an infinity and the sign of zero are
  left out); the non-finite values follow IEEE-754: NaN is absorbing, every comparison
  with NaN is false, \<open>Infinity - Infinity\<close>, \<open>0 * Infinity\<close>, \<open>0 / 0\<close> and
  \<open>Infinity / Infinity\<close> are NaN, and a non-zero finite number divided by zero is an
  infinity.
\<close>

datatype jsnum = Fin real | PInf | NInf | NaN

instantiation jsnum :: "{zero, one, plus, uminus, minus, times, inverse, ord}"
begin

definition zero_jsnum :: jsnum where
  "zero_jsnum = Fin 0"

definition one_jsnum :: jsnum where
  "one_jsnum = Fin 1"

fun plus_jsnum :: "jsnum \<Rightarrow> jsnum \<Rightarrow> jsnum" where
  "plus_jsnum (Fin a) (Fin b) = Fin (a + b)"
| "plus_jsnum NaN _ = NaN"
| "plus_jsnum _ NaN = NaN"
| "plus_jsnum PInf NInf = NaN"
| "plus_jsnum NInf PInf = NaN"
| "plus_jsnum PInf _ = PInf"
| "plus_jsnum _ PInf = PInf"
| "plus_jsnum NInf _ = NInf"
| "plus_jsnum _ NInf = NInf"

fun uminus_jsnum :: "jsnum \<Rightarrow> jsnum" where
  "uminus_jsnum (Fin a) = Fin (- a)"
| "uminus_jsnum PInf = NInf"
| "uminus_jsnum NInf = PInf"
| "uminus_jsnum NaN = NaN"

definition minus_jsnum :: "jsnum \<Rightarrow> jsnum \<Rightarrow> jsnum" where
  "minus_jsnum a b = a + (- b)"

fun times_jsnum :: "jsnum \<Rightarrow> jsnum \<Rightarrow> jsnum" where
  "times_jsnum (Fin a) (Fin b) = Fin (a * b)"
| "times_jsnum NaN _ = NaN"
| "times_jsnum _ NaN = NaN"
| "times_jsnum PInf (Fin b) = (if b = 0 then NaN else if 0 < b then PInf else NInf)"
| "times_jsnum NInf (Fin b) = (if b = 0 then NaN else if 0 < b then NInf else PInf)"
| "times_jsnum (Fin a) PInf = (if a = 0 then NaN else if 0 < a then PInf else NInf)"
| "times_jsnum (Fin a) NInf = (if a = 0 then NaN else if 0 < a then NInf else PInf)"
| "times_jsnum PInf PInf = PInf"
| "times_jsnum PInf NInf = NInf"
| "times_jsnum NInf PInf = NInf"
| "times_jsnum NInf NInf = PInf"

fun divide_jsnum :: "jsnum \<Rightarrow> jsnum \<Rightarrow> jsnum" where
  "divide_jsnum (Fin a) (Fin b) =
     (if b = 0 then (if a = 0 then NaN else if 0 < a then PInf else NInf)
      else Fin (a / b))"
| "divide_jsnum NaN _ = NaN"
| "divide_jsnum _ NaN = NaN"
| "divide_jsnum (Fin a) PInf = Fin 0"
| "divide_jsnum (Fin a) NInf = Fin 0"
| "divide_jsnum PInf (Fin b) = (if 0 \<le> b then PInf else NInf)"
| "divide_jsnum NInf (Fin b) = (if 0 \<le> b then NInf else PInf)"
| "divide_jsnum PInf PInf = NaN"
| "divide_jsnum PInf NInf = NaN"
| "divide_jsnum NInf PInf = NaN"
| "divide_jsnum NInf NInf = NaN"

definition inverse_jsnum :: "jsnum \<Rightarrow> jsnum" where
  "inverse_jsnum a = (Fin 1 div a)"

fun less_jsnum :: "jsnum \<Rightarrow> jsnum \<Rightarrow> bool" where
  "less_jsnum (Fin a) (Fin b) = (a < b)"
| "less_jsnum NaN _ = False"
| "less_jsnum _ NaN = False"
| "less_jsnum NInf NInf = False"
| "less_jsnum NInf _ = True"
| "less_jsnum PInf _ = False"
| "less_jsnum (Fin a) PInf = True"
| "less_jsnum (Fin a) NInf = False"

fun less_eq_jsnum :: "jsnum \<Rightarrow> jsnum \<Rightarrow> bool" where
  "less_eq_jsnum (Fin a) (Fin b) = (a \<le> b)"
| "less_eq_jsnum NaN _ = False"
| "less_eq_jsnum _ NaN = False"
| "less_eq_jsnum NInf _ = True"
| "less_eq_jsnum PInf PInf = True"
| "less_eq_jsnum PInf _ = False"
| "less_eq_jsnum (Fin a) PInf = True"
| "less_eq_jsnum (Fin a) NInf = False"

instance ..

end

text \<open>\<open>Number.isFinite\<close>.\<close>

fun isFinite :: "jsnum \<Rightarrow> bool" where
  "isFinite (Fin a) = True"
| "isFinite _ = False"

text \<open>\<open>Math.hypot(a, b)\<close>: an infinite argument gives Infinity, even beside a NaN.\<close>

fun hypot :: "jsnum \<Rightarrow> jsnum \<Rightarrow> jsnum" where
  "hypot (Fin a) (Fin b) = Fin (sqrt (a * a + b * b))"
| "hypot PInf _ = PInf"
| "hypot NInf _ = PInf"
| "hypot _ PInf = PInf"
| "hypot _ NInf = PInf"
| "hypot NaN _ = NaN"
| "hypot _ NaN = NaN"

text \<open>\<open>Math.sqrt\<close>, \<open>Math.sin\<close>, \<open>Math.cos\<close>, \<open>Math.max\<close>, \<open>Math.min\<close>.\<close>

fun js_sqrt :: "jsnum \<Rightarrow> jsnum" where
  "js_sqrt (Fin a) = (if a < 0 then NaN else Fin (sqrt a))"
| "js_sqrt PInf = PInf"
| "js_sqrt NInf = NaN"
| "js_sqrt NaN = NaN"

fun js_sin :: "jsnum \<Rightarrow> jsnum" where
  "js_sin (Fin a) = Fin (sin a)"
| "js_sin _ = NaN"

fun js_cos :: "jsnum \<Rightarrow> jsnum" where
  "js_cos (Fin a) = Fin (cos a)"
| "js_cos _ = NaN"

fun js_max :: "jsnum \<Rightarrow> jsnum \<Rightarrow> jsnum" where
  "js_max NaN _ = NaN"
| "js_max _ NaN = NaN"
| "js_max a b = (if a < b then b else a)"

fun js_min :: "jsnum \<Rightarrow> jsnum \<Rightarrow> jsnum" where
  "js_min NaN _ = NaN"
| "js_min _ NaN = NaN"
| "js_min a b = (if b < a then b else a)"

text \<open>
  \<open>v || d\<close> on a number that may be \<open>undefined\<close>: \<open>undefined\<close>, \<open>NaN\<close> and \<open>0\<close>
  are falsy.
\<close>

fun js_or :: "jsnum option \<Rightarrow> jsnum \<Rightarrow> jsnum" where
  "js_or None d = d"
| "js_or (Some NaN) d = d"
| "js_or (Some (Fin a)) d = (if a = 0 then d else Fin a)"
| "js_or (Some v) d = v"


section \<open>Hand tracking: \<open>LocalGestureService.processVideoFrame\<close>\<close>

text \<open>
  A landmark of the detector is \<open>{x, y, z}\<close>; the tracking result is the interface
  \<open>HandTrackingResult\<close>, whose \<open>handSpread\<close> is optional and whose \<open>gesture\<close> is a
  string. The field names carry a prefix where the source's name is a single letter.
\<close>

record landmark =
  lm_x :: jsnum
  lm_y :: jsnum
  lm_z :: jsnum

record HandTrackingResult =
  res_x :: jsnum
  res_y :: jsnum
  isDetected :: bool
  gesture :: string
  handSpread :: "jsnum option"

definition noResult :: HandTrackingResult where
  "noResult = \<lparr>res_x = Fin 0.5, res_y = Fin 0.5, isDetected = False,
                gesture = ''NONE'', handSpread = Some (Fin 0)\<rparr>"

text \<open>
  \<open>landmarks[i].x\<close>: past the end of the array \<open>landmarks[i]\<close> is \<open>undefined\<close> and
  reading a property of it raises a TypeError, here \<open>None\<close>.
\<close>

definition landmarkAt :: "landmark list \<Rightarrow> nat \<Rightarrow> landmark option" where
  "landmarkAt landmarks i = (if i < length landmarks then Some (landmarks ! i) else None)"

definition isFingerExtended :: "landmark list \<Rightarrow> nat \<Rightarrow> nat \<Rightarrow> jsnum \<Rightarrow> bool option" where
  "isFingerExtended landmarks tipIdx pipIdx palmScale = do {
     tip \<leftarrow> landmarkAt landmarks tipIdx;
     wrist \<leftarrow> landmarkAt landmarks 0;
     pip \<leftarrow> landmarkAt landmarks pipIdx;
     let dTip = hypot (lm_x tip - lm_x wrist) (lm_y tip - lm_y wrist);
     let dPip = hypot (lm_x pip - lm_x wrist) (lm_y pip - lm_y wrist);
     Some (dPip + palmScale * Fin 0.15 < dTip)
   }"

definition isThumbExtended :: "landmark list \<Rightarrow> jsnum \<Rightarrow> bool option" where
  "isThumbExtended landmarks palmScale = do {
     thumbTip \<leftarrow> landmarkAt landmarks 4;
     pinkyMCP \<leftarrow> landmarkAt landmarks 17;
     thumbIP \<leftarrow> landmarkAt landmarks 3;
     let dTip = hypot (lm_x thumbTip - lm_x pinkyMCP) (lm_y thumbTip - lm_y pinkyMCP);
     let dIP = hypot (lm_x thumbIP - lm_x pinkyMCP) (lm_y thumbIP - lm_y pinkyMCP);
     Some (dIP + palmScale * Fin 0.1 < dTip)
   }"

text \<open>The \<open>forEach\<close> of \<open>calculateCentroid\<close>, summing both coordinates.\<close>

fun sumCoords :: "landmark list \<Rightarrow> nat list \<Rightarrow> jsnum \<times> jsnum \<Rightarrow> (jsnum \<times> jsnum) option" where
  "sumCoords landmarks [] acc = Some acc"
| "sumCoords landmarks (i # ids) acc = do {
     l \<leftarrow> landmarkAt landmarks i;
     sumCoords landmarks ids (fst acc + lm_x l, snd acc + lm_y l)
   }"

definition calculateCentroid :: "landmark list \<Rightarrow> nat list \<Rightarrow> (jsnum \<times> jsnum) option" where
  "calculateCentroid landmarks specificIndices = do {
     s \<leftarrow> sumCoords landmarks specificIndices (Fin 0, Fin 0);
     Some (fst s / Fin (real (length specificIndices)),
           snd s / Fin (real (length specificIndices)))
   }"

text \<open>The \<open>forEach\<close> that accumulates \<open>totalDist\<close>.\<close>

fun sumDist :: "landmark list \<Rightarrow> nat list \<Rightarrow> jsnum \<times> jsnum \<Rightarrow> jsnum \<Rightarrow> jsnum option" where
  "sumDist landmarks [] centroid totalDist = Some totalDist"
| "sumDist landmarks (i # ids) centroid totalDist = do {
     l \<leftarrow> landmarkAt landmarks i;
     sumDist landmarks ids centroid
       (totalDist + hypot (lm_x l - fst centroid) (lm_y l - snd centroid))
   }"

definition allTips :: "nat list" where
  "allTips = [4, 8, 12, 16, 20]"

text \<open>
  Step 3 of \<open>processVideoFrame\<close>: the gesture and \<open>pointingTipIndex\<close> (\<open>-1\<close> when
  there is none) from the five finger flags.
\<close>

definition gestureLogic :: "bool \<Rightarrow> bool \<Rightarrow> bool \<Rightarrow> bool \<Rightarrow> bool \<Rightarrow> string \<times> int" where
  "gestureLogic isIndexExtended isMiddleExtended isRingExtended isPinkyExtended isThumbExt =
     (let areOthersCurled = \<not> isMiddleExtended \<and> \<not> isRingExtended \<and> \<not> isPinkyExtended
      in if areOthersCurled then
           (if isIndexExtended then (''POINTING'', 8)
            else if isThumbExt then (''POINTING'', 4)
            else (''GENERAL'', - 1))
         else (''GENERAL'', - 1))"

text \<open>
  The debug canvas is optional, and drawing on it has no part in the result. What can
  raise on it is kept apart. On \<open>DrawThrows\<close> the drawing utilities raise inside
  \<open>drawDebug\<close>, while \<open>getContext\<close> and \<open>clearRect\<close> work. On \<open>ContextThrows\<close>
  \<open>getContext\<close> or \<open>clearRect\<close> raises: in \<open>drawDebug\<close>, which runs inside the
  \<open>try\<close>, and in the clearing of the canvas that follows the \<open>try\<close> block when no hand
  was found.
\<close>

datatype canvas = DrawOk | DrawThrows | ContextThrows

fun drawDebug :: "canvas option \<Rightarrow> unit option" where
  "drawDebug None = Some ()"
| "drawDebug (Some DrawOk) = Some ()"
| "drawDebug (Some DrawThrows) = None"
| "drawDebug (Some ContextThrows) = None"

fun clearCanvas :: "canvas \<Rightarrow> unit option" where
  "clearCanvas DrawOk = Some ()"
| "clearCanvas DrawThrows = Some ()"
| "clearCanvas ContextThrows = None"

text \<open>
  What a frame does besides returning, in the order it does it: \<open>Detect\<close>, the call of
  the detector (\<open>detectForVideo\<close>); \<open>Extract\<close>, the computation of the features of the
  first hand; \<open>Draw\<close>, the call of \<open>drawDebug\<close>; \<open>Clear\<close>, the clearing of the canvas
  after the \<open>try\<close> block.
\<close>

datatype event = Detect | Extract | Draw | Clear

text \<open>
  The body of \<open>if (result.landmarks.length > 0)\<close>, from \<open>landmarks = result.landmarks[0]\<close>
  to the \<open>return\<close>; \<open>None\<close> is a raised exception. \<open>handFeatures\<close> is the body without
  the drawing: steps 1 to 5 and the record that is returned; \<open>handFrame\<close> draws on the
  debug canvas before it returns the record; \<open>handEvents\<close> is what the body does.
\<close>

definition handFeatures :: "landmark list \<Rightarrow> HandTrackingResult option" where
  "handFeatures landmarks = do {
     wrist \<leftarrow> landmarkAt landmarks 0;
     middleMCP \<leftarrow> landmarkAt landmarks 9;
     let palmScale = hypot (lm_x wrist - lm_x middleMCP) (lm_y wrist - lm_y middleMCP);
     isIndexExtended \<leftarrow> isFingerExtended landmarks 8 6 palmScale;
     isMiddleExtended \<leftarrow> isFingerExtended landmarks 12 10 palmScale;
     isRingExtended \<leftarrow> isFingerExtended landmarks 16 14 palmScale;
     isPinkyExtended \<leftarrow> isFingerExtended landmarks 20 18 palmScale;
     isThumbExt \<leftarrow> isThumbExtended landmarks palmScale;
     let g = gestureLogic isIndexExtended isMiddleExtended isRingExtended isPinkyExtended
               isThumbExt;
     centroid \<leftarrow> calculateCentroid landmarks allTips;
     totalDist \<leftarrow> sumDist landmarks allTips centroid (Fin 0);
     let spread = (totalDist / Fin 5) / palmScale;
     target \<leftarrow> (if fst g = ''POINTING'' \<and> snd g \<noteq> - 1
                then do { tip \<leftarrow> landmarkAt landmarks (nat (snd g));
                          Some (lm_x tip, lm_y tip) }
                else Some centroid);
     Some \<lparr>res_x = Fin 1 - fst target, res_y = snd target, isDetected = True,
           gesture = fst g, handSpread = Some spread\<rparr>
   }"

definition handFrame :: "landmark list \<Rightarrow> canvas option \<Rightarrow> HandTrackingResult option" where
  "handFrame landmarks debugCanvas = do {
     r \<leftarrow> handFeatures landmarks;
     _ \<leftarrow> drawDebug debugCanvas;
     Some r
   }"

definition handEvents :: "landmark list \<Rightarrow> canvas option \<Rightarrow> event list" where
  "handEvents landmarks debugCanvas =
     Extract # (case handFeatures landmarks of
                  None \<Rightarrow> []
                | Some r \<Rightarrow> (case debugCanvas of None \<Rightarrow> [] | Some c \<Rightarrow> [Draw]))"

text \<open>
  \<open>detectForVideo\<close> belongs to the detector library: it raises, or returns the landmark
  arrays of the hands it found. The \<open>try\<close> block ends in one of three ways.
\<close>

datatype detection = DetectThrows | Detected "landmark list list"

datatype completion = Return HandTrackingResult | Throw | Normal

definition tryBlock :: "detection \<Rightarrow> canvas option \<Rightarrow> completion" where
  "tryBlock det debugCanvas =
     (case det of
        DetectThrows \<Rightarrow> Throw
      | Detected hands \<Rightarrow>
          (case hands of
             [] \<Rightarrow> Normal
           | landmarks # _ \<Rightarrow>
               (case handFrame landmarks debugCanvas of
                  None \<Rightarrow> Throw
                | Some r \<Rightarrow> Return r)))"

definition tryEvents :: "detection \<Rightarrow> canvas option \<Rightarrow> event list" where
  "tryEvents det debugCanvas =
     (case det of
        DetectThrows \<Rightarrow> [Detect]
      | Detected hands \<Rightarrow>
          (case hands of
             [] \<Rightarrow> [Detect]
           | landmarks # _ \<Rightarrow> Detect # handEvents landmarks debugCanvas))"

text \<open>
  \<open>processVideoFrame\<close>: \<open>handLandmarker\<close> says whether the service is initialised,
  \<open>videoWidth\<close> and \<open>videoHeight\<close> are the video's dimensions. A run of it has the
  events it went through and its outcome: the tracking result it returns, or \<open>None\<close> when
  an exception leaves the function. An exception inside the \<open>try\<close> block is caught; the
  clearing of the canvas, when the block has ended without a hand, is outside of it.
\<close>

record frame_run =
  events :: "event list"
  outcome :: "HandTrackingResult option"

definition processVideoFrame ::
  "bool \<Rightarrow> nat \<Rightarrow> nat \<Rightarrow> detection \<Rightarrow> canvas option \<Rightarrow> frame_run" where
  "processVideoFrame handLandmarker videoWidth videoHeight det debugCanvas =
     (if \<not> handLandmarker then \<lparr>events = [], outcome = Some noResult\<rparr>
      else if videoWidth = 0 \<or> videoHeight = 0 then \<lparr>events = [], outcome = Some noResult\<rparr>
      else (case tryBlock det debugCanvas of
              Return r \<Rightarrow> \<lparr>events = tryEvents det debugCanvas, outcome = Some r\<rparr>
            | Throw \<Rightarrow> \<lparr>events = tryEvents det debugCanvas, outcome = Some noResult\<rparr>
            | Normal \<Rightarrow>
                (case debugCanvas of
                   None \<Rightarrow> \<lparr>events = tryEvents det debugCanvas, outcome = Some noResult\<rparr>
                 | Some c \<Rightarrow>
                     \<lparr>events = tryEvents det debugCanvas @ [Clear],
                      outcome = do { _ \<leftarrow> clearCanvas c; Some noResult }\<rparr>)))"

subsection \<open>Example poses\<close>

text \<open>
  A hand whose 21 landmarks coincide; a pointing hand, wrist at the bottom, the middle
  knuckle above it and the index tip far above, the other tips at the wrist; and the same
  hand after the detector reports NaN as the \<open>x\<close> of the index tip.
\<close>

definition flatHand :: "landmark list" where
  "flatHand = replicate 21 \<lparr>lm_x = Fin 0.75, lm_y = Fin 0.95, lm_z = Fin 0\<rparr>"

definition pointingHand :: "landmark list" where
  "pointingHand = flatHand[9 := \<lparr>lm_x = Fin 0.75, lm_y = Fin 0.8, lm_z = Fin 0\<rparr>,
                           8 := \<lparr>lm_x = Fin 0.75, lm_y = Fin 0.5, lm_z = Fin 0\<rparr>]"

definition nanHand :: "landmark list" where
  "nanHand = pointingHand[8 := \<lparr>lm_x = NaN, lm_y = Fin 0.5, lm_z = Fin 0\<rparr>]"

section \<open>The scene: \<open>ChristmasTree\<close>\<close>

subsection \<open>Vectors of the rendering library\<close>

text \<open>
  \<open>THREE.Vector3\<close> belongs to the rendering library; the methods the component calls
  are modelled after the library's definitions: \<open>length\<close> is the square root of the sum
  of squares, \<open>normalize\<close> divides by \<open>length() || 1\<close>, \<open>setLength(l)\<close> is
  \<open>normalize().multiplyScalar(l)\<close>, \<open>divideScalar(s)\<close> is \<open>multiplyScalar(1 / s)\<close>,
  and \<open>lerp(v, alpha)\<close> adds \<open>(v - this) * alpha\<close> to each component.
\<close>

record vec3 =
  vx :: jsnum
  vy :: jsnum
  vz :: jsnum

definition vlength :: "vec3 \<Rightarrow> jsnum" where
  "vlength v = js_sqrt (vx v * vx v + vy v * vy v + vz v * vz v)"

definition multiplyScalar :: "vec3 \<Rightarrow> jsnum \<Rightarrow> vec3" where
  "multiplyScalar v s = \<lparr>vx = vx v * s, vy = vy v * s, vz = vz v * s\<rparr>"

definition divideScalar :: "vec3 \<Rightarrow> jsnum \<Rightarrow> vec3" where
  "divideScalar v s = multiplyScalar v (Fin 1 / s)"

definition normalize :: "vec3 \<Rightarrow> vec3" where
  "normalize v = divideScalar v (js_or (Some (vlength v)) (Fin 1))"

definition setLength :: "vec3 \<Rightarrow> jsnum \<Rightarrow> vec3" where
  "setLength v l = multiplyScalar (normalize v) l"

definition distanceTo :: "vec3 \<Rightarrow> vec3 \<Rightarrow> jsnum" where
  "distanceTo a b =
     (let dx = vx a - vx b; dy = vy a - vy b; dz = vz a - vz b
      in js_sqrt (dx * dx + dy * dy + dz * dz))"


subsection \<open>The refs of the component\<close>

text \<open>
  \<open>stateRef\<close> holds 0, 1 or 2, which the source reads as Tree, Explode and Text. The
  record gathers what the gesture effect reads and writes: the logic refs, the
  \<open>autoRotate\<close> flag and the \<open>target\<close> of the orbit controls, and the camera's position.
  \<open>refsReady\<close> says that \<open>controlsRef.current\<close> and \<open>cameraRef.current\<close> are set.
\<close>

datatype formation = TREE | EXPLODE | TEXT

record scene =
  refsReady :: bool
  stateRef :: formation
  lastSpreadRef :: jsnum
  lastSwitchTimeRef :: int
  lastVelocityTimeRef :: int
  autoRotate :: bool
  controlsTarget :: vec3
  cameraPosition :: vec3

text \<open>
  The refs as the component mounts at time \<open>t0\<close> (\<open>Date.now()\<close>, in milliseconds):
  \<open>camera.position.set(0, 20, 90)\<close>, \<open>controls.autoRotate = true\<close>, and the target of
  new orbit controls is the origin.
\<close>

definition initialScene :: "int \<Rightarrow> scene" where
  "initialScene t0 =
     \<lparr>refsReady = True, stateRef = TREE, lastSpreadRef = Fin 0, lastSwitchTimeRef = 0,
      lastVelocityTimeRef = t0, autoRotate = True,
      controlsTarget = \<lparr>vx = Fin 0, vy = Fin 0, vz = Fin 0\<rparr>,
      cameraPosition = \<lparr>vx = Fin 0, vy = Fin 20, vz = Fin 90\<rparr>\<rparr>"

subsection \<open>The gesture effect\<close>

text \<open>The spread, remapped: \<open>Math.max(0, Math.min(1, ((handSpread || 0) - 0.35) / 0.65))\<close>.\<close>

definition remapSpread :: "jsnum option \<Rightarrow> jsnum" where
  "remapSpread hs = js_max (Fin 0) (js_min (Fin 1) ((js_or hs (Fin 0) - Fin 0.35) / Fin 0.65))"

text \<open>Zoom logic.\<close>

definition zoom :: "scene \<Rightarrow> jsnum \<Rightarrow> scene" where
  "zoom s spread =
     (let targetRadius = Fin 200 - spread * Fin 145;
          currentLen = vlength (cameraPosition s);
          newLen = currentLen + (targetRadius - currentLen) * Fin 0.1
      in s\<lparr>cameraPosition := setLength (cameraPosition s) newLen\<rparr>)"

text \<open>
  The body of \<open>if (now - lastSwitchTimeRef.current > COOLDOWN_MS)\<close>: the two triggers,
  each setting \<open>nextState\<close> and \<open>autoRotate\<close>, then the commit of \<open>nextState\<close>.
\<close>

definition switchFormation :: "scene \<Rightarrow> jsnum \<Rightarrow> int \<Rightarrow> scene" where
  "switchFormation s velocity now =
     (let r = (if Fin 2 < velocity then
                 (if stateRef s = TREE then (EXPLODE, s\<lparr>autoRotate := False\<rparr>)
                  else if stateRef s = TEXT then (TREE, s\<lparr>autoRotate := True\<rparr>)
                  else (stateRef s, s))
               else if velocity < Fin (- 1) then
                 (if stateRef s = EXPLODE then (TEXT, s\<lparr>autoRotate := False\<rparr>)
                  else (stateRef s, s))
               else (stateRef s, s));
          nextState = fst r;
          s1 = snd r
      in if nextState \<noteq> stateRef s1
         then s1\<lparr>stateRef := nextState, lastSwitchTimeRef := now\<rparr>
         else s1)"

text \<open>The body of \<open>if (timeDelta > 0.1)\<close>.\<close>

definition velocitySwitch :: "scene \<Rightarrow> jsnum \<Rightarrow> int \<Rightarrow> jsnum \<Rightarrow> scene" where
  "velocitySwitch s spread now timeDelta =
     (let velocity = (spread - lastSpreadRef s) / timeDelta;
          s1 = (if 800 < now - lastSwitchTimeRef s then switchFormation s velocity now else s)
      in s1\<lparr>lastSpreadRef := spread, lastVelocityTimeRef := now\<rparr>)"

text \<open>The steering of the camera while pointing, and the auto-rotation otherwise.\<close>

definition targetAzimuth :: "jsnum \<Rightarrow> jsnum" where
  "targetAzimuth x = - (x - Fin 0.5) * Fin pi * Fin 4"

definition targetPolar :: "jsnum \<Rightarrow> jsnum" where
  "targetPolar y = y * Fin pi"

definition cameraSteer :: "scene \<Rightarrow> HandTrackingResult \<Rightarrow> scene" where
  "cameraSteer s trackingResult =
     (if gesture trackingResult = ''POINTING'' \<and> isDetected trackingResult then
        (let azimuth = targetAzimuth (res_x trackingResult);
             polar = targetPolar (res_y trackingResult);
             p = cameraPosition s;
             radius = distanceTo p (controlsTarget s);
             x = radius * js_sin polar * js_sin azimuth;
             y = radius * js_cos polar;
             z = radius * js_sin polar * js_cos azimuth
         in s\<lparr>autoRotate := False,
              cameraPosition := \<lparr>vx = vx p + (x - vx p) * Fin 0.1,
                                  vy = vy p + (y - vy p) * Fin 0.1,
                                  vz = vz p + (z - vz p) * Fin 0.1\<rparr>\<rparr>)
      else s\<lparr>autoRotate := True\<rparr>)"

text \<open>
  One run of the effect, for the tracking result of a frame, at time \<open>now\<close>
  (\<open>Date.now()\<close>).
\<close>

definition gestureEffect :: "scene \<Rightarrow> HandTrackingResult \<Rightarrow> int \<Rightarrow> scene" where
  "gestureEffect s trackingResult now =
     (if \<not> refsReady s then s
      else
        (let spread = remapSpread (handSpread trackingResult);
             s1 = zoom s spread;
             timeDelta = Fin (real_of_int (now - lastVelocityTimeRef s1) / 1000);
             s2 = (if Fin 0.1 < timeDelta then velocitySwitch s1 spread now timeDelta else s1)
         in cameraSteer s2 trackingResult))"

text \<open>A run of the effect over the frames of a list, each with its time.\<close>

fun runEffects :: "scene \<Rightarrow> (HandTrackingResult \<times> int) list \<Rightarrow> scene" where
  "runEffects s [] = s"
| "runEffects s (f # fs) = runEffects (gestureEffect s (fst f) (snd f)) fs"

text \<open>
  The quantities the effect computes on the way, for a scene whose refs are set: the time
  since the last velocity sample, in seconds, and the velocity of the remapped spread.
\<close>

definition timeDeltaOf :: "scene \<Rightarrow> int \<Rightarrow> jsnum" where
  "timeDeltaOf s now = Fin (real_of_int (now - lastVelocityTimeRef s) / 1000)"

definition velocityOf :: "scene \<Rightarrow> HandTrackingResult \<Rightarrow> int \<Rightarrow> jsnum" where
  "velocityOf s trackingResult now =
     (remapSpread (handSpread trackingResult) - lastSpreadRef s) / timeDeltaOf s now"

text \<open>
  The transition table as the specification words it, first matching rule first:
  Tree with a velocity above 2 goes to Explode, Text with a velocity above 2 goes to Tree,
  Explode with a velocity below -1 goes to Text, and nothing else changes the formation.
\<close>

definition specNextState :: "formation \<Rightarrow> jsnum \<Rightarrow> formation" where
  "specNextState st velocity =
     (if st = TREE \<and> Fin 2 < velocity then EXPLODE
      else if st = TEXT \<and> Fin 2 < velocity then TREE
      else if st = EXPLODE \<and> velocity < Fin (- 1) then TEXT
      else st)"

text \<open>
  A run in which every velocity that is computed lies between -1 and 2, both included.
\<close>

fun calm :: "scene \<Rightarrow> (HandTrackingResult \<times> int) list \<Rightarrow> bool" where
  "calm s [] = True"
| "calm s (f # fs) =
     ((Fin 0.1 < timeDeltaOf s (snd f) \<longrightarrow>
         Fin (- 1) \<le> velocityOf s (fst f) (snd f) \<and> velocityOf s (fst f) (snd f) \<le> Fin 2)
      \<and> calm (gestureEffect s (fst f) (snd f)) fs)"

text \<open>
  The scenes the component can be in: the mounted one, and from a scene the one after a
  run of the effect, for any tracking result at any time, and the one after the orbit
  controls have moved the camera (\<open>controls.update()\<close> in the animation loop).
\<close>

inductive reachable :: "scene \<Rightarrow> bool" where
  mount: "reachable (initialScene t0)"
| effect: "reachable s \<Longrightarrow> reachable (gestureEffect s trackingResult now)"
| orbit: "reachable s \<Longrightarrow> reachable (s\<lparr>cameraPosition := p\<rparr>)"

code_pred reachable .

text \<open>
  Example frames: an open hand seen as a general gesture, and the scene after the hand
  has opened fast and stayed open until the cooldown is over.
\<close>

definition openHand :: HandTrackingResult where
  "openHand = \<lparr>res_x = Fin 0.5, res_y = Fin 0.5, isDetected = True, gesture = ''GENERAL'',
                handSpread = Some (Fin 1)\<rparr>"

definition explodedScene :: scene where
  "explodedScene = runEffects (initialScene 1000) [(openHand, 1200), (openHand, 2100)]"

subsection \<open>Finite vectors\<close>


section \<open>Properties of the frame producer\<close>

subsection \<open>Reading landmarks\<close>

lemma landmarkAt_in: "i < length landmarks \<Longrightarrow> landmarkAt landmarks i = Some (landmarks ! i)"
  by (simp add: landmarkAt_def)

lemma landmarkAt_out: "length landmarks \<le> i \<Longrightarrow> landmarkAt landmarks i = None"
  by (simp add: landmarkAt_def)

lemma isFingerExtended_in:
  "tipIdx < length landmarks \<Longrightarrow> pipIdx < length landmarks \<Longrightarrow>
   isFingerExtended landmarks tipIdx pipIdx palmScale =
     Some (hypot (lm_x (landmarks ! pipIdx) - lm_x (landmarks ! 0))
                 (lm_y (landmarks ! pipIdx) - lm_y (landmarks ! 0)) + palmScale * Fin 0.15
           < hypot (lm_x (landmarks ! tipIdx) - lm_x (landmarks ! 0))
                   (lm_y (landmarks ! tipIdx) - lm_y (landmarks ! 0)))"
  by (auto simp add: isFingerExtended_def landmarkAt_def Let_def)

lemma isThumbExtended_in:
  "17 < length landmarks \<Longrightarrow>
   isThumbExtended landmarks palmScale =
     Some (hypot (lm_x (landmarks ! 3) - lm_x (landmarks ! 17))
                 (lm_y (landmarks ! 3) - lm_y (landmarks ! 17)) + palmScale * Fin 0.1
           < hypot (lm_x (landmarks ! 4) - lm_x (landmarks ! 17))
                   (lm_y (landmarks ! 4) - lm_y (landmarks ! 17)))"
  by (simp add: isThumbExtended_def landmarkAt_def Let_def)

lemma calculateCentroid_tips:
  "20 < length landmarks \<Longrightarrow>
   calculateCentroid landmarks allTips =
     Some ((Fin 0 + lm_x (landmarks ! 4) + lm_x (landmarks ! 8) + lm_x (landmarks ! 12)
              + lm_x (landmarks ! 16) + lm_x (landmarks ! 20)) / Fin 5,
           (Fin 0 + lm_y (landmarks ! 4) + lm_y (landmarks ! 8) + lm_y (landmarks ! 12)
              + lm_y (landmarks ! 16) + lm_y (landmarks ! 20)) / Fin 5)"
  by (simp add: calculateCentroid_def allTips_def landmarkAt_def)

lemma sumDist_tips:
  "20 < length landmarks \<Longrightarrow> \<exists>d. sumDist landmarks allTips c (Fin 0) = Some d"
  by (simp add: allTips_def landmarkAt_def)

lemma handFeatures_short: "length landmarks < 21 \<Longrightarrow> handFeatures landmarks = None"
  by (simp add: handFeatures_def isFingerExtended_def[of _ 20] landmarkAt_out Let_def
        split: Option.bind_splits)

lemma handFrame_short: "length landmarks < 21 \<Longrightarrow> handFrame landmarks debugCanvas = None"
  by (simp add: handFrame_def handFeatures_short)


lemma handFrame_drawn:
  "drawDebug debugCanvas = Some () \<Longrightarrow> handFrame landmarks debugCanvas = handFeatures landmarks"
  by (simp add: handFrame_def)

lemma handFrame_long:
  assumes len: "21 \<le> length landmarks" and cv: "drawDebug debugCanvas = Some ()"
  shows "\<exists>isIndex isMiddle isRing isPinky isThumb centroid totalDist.
     isFingerExtended landmarks 8 6 (hypot (lm_x (landmarks ! 0) - lm_x (landmarks ! 9))
         (lm_y (landmarks ! 0) - lm_y (landmarks ! 9))) = Some isIndex \<and>
     isFingerExtended landmarks 12 10 (hypot (lm_x (landmarks ! 0) - lm_x (landmarks ! 9))
         (lm_y (landmarks ! 0) - lm_y (landmarks ! 9))) = Some isMiddle \<and>
     isFingerExtended landmarks 16 14 (hypot (lm_x (landmarks ! 0) - lm_x (landmarks ! 9))
         (lm_y (landmarks ! 0) - lm_y (landmarks ! 9))) = Some isRing \<and>
     isFingerExtended landmarks 20 18 (hypot (lm_x (landmarks ! 0) - lm_x (landmarks ! 9))
         (lm_y (landmarks ! 0) - lm_y (landmarks ! 9))) = Some isPinky \<and>
     isThumbExtended landmarks (hypot (lm_x (landmarks ! 0) - lm_x (landmarks ! 9))
         (lm_y (landmarks ! 0) - lm_y (landmarks ! 9))) = Some isThumb \<and>
     calculateCentroid landmarks allTips = Some centroid \<and>
     sumDist landmarks allTips centroid (Fin 0) = Some totalDist \<and>
     handFrame landmarks debugCanvas =
       Some (let g = gestureLogic isIndex isMiddle isRing isPinky isThumb;
                 target = (if fst g = ''POINTING'' \<and> snd g \<noteq> - 1
                           then (lm_x (landmarks ! nat (snd g)), lm_y (landmarks ! nat (snd g)))
                           else centroid)
             in \<lparr>res_x = Fin 1 - fst target, res_y = snd target, isDetected = True,
                 gesture = fst g,
                 handSpread = Some ((totalDist / Fin 5) / hypot (lm_x (landmarks ! 0) - lm_x (landmarks ! 9))
         (lm_y (landmarks ! 0) - lm_y (landmarks ! 9)))\<rparr>)"
proof -
  define ps where "ps = hypot (lm_x (landmarks ! 0) - lm_x (landmarks ! 9))
         (lm_y (landmarks ! 0) - lm_y (landmarks ! 9))"
  from len have len': "20 < length landmarks" by simp
  obtain c where c: "calculateCentroid landmarks allTips = Some c"
    using calculateCentroid_tips[OF len'] by blast
  obtain d where d: "sumDist landmarks allTips c (Fin 0) = Some d"
    using sumDist_tips[OF len'] by blast
  obtain i1 where i1: "isFingerExtended landmarks 8 6 ps = Some i1"
    using isFingerExtended_in[of 8 landmarks 6] len by simp
  obtain i2 where i2: "isFingerExtended landmarks 12 10 ps = Some i2"
    using isFingerExtended_in[of 12 landmarks 10] len by simp
  obtain i3 where i3: "isFingerExtended landmarks 16 14 ps = Some i3"
    using isFingerExtended_in[of 16 landmarks 14] len by simp
  obtain i4 where i4: "isFingerExtended landmarks 20 18 ps = Some i4"
    using isFingerExtended_in[of 20 landmarks 18] len by simp
  obtain i5 where i5: "isThumbExtended landmarks ps = Some i5"
    using isThumbExtended_in[of landmarks] len by simp
  have g: "snd (gestureLogic i1 i2 i3 i4 i5) = 8 \<or> snd (gestureLogic i1 i2 i3 i4 i5) = 4
           \<or> snd (gestureLogic i1 i2 i3 i4 i5) = - 1"
    by (simp add: gestureLogic_def)
  have tip: "landmarkAt landmarks (nat (snd (gestureLogic i1 i2 i3 i4 i5)))
             = Some (landmarks ! nat (snd (gestureLogic i1 i2 i3 i4 i5)))"
    if "snd (gestureLogic i1 i2 i3 i4 i5) \<noteq> - 1"
    using g that len by (auto simp: landmarkAt_in)
  have w: "landmarkAt landmarks 0 = Some (landmarks ! 0)"
          "landmarkAt landmarks 9 = Some (landmarks ! 9)"
    using len by (auto simp add: landmarkAt_def)
  have "handFrame landmarks debugCanvas =
       Some (let g = gestureLogic i1 i2 i3 i4 i5;
                 target = (if fst g = ''POINTING'' \<and> snd g \<noteq> - 1
                           then (lm_x (landmarks ! nat (snd g)), lm_y (landmarks ! nat (snd g)))
                           else c)
             in \<lparr>res_x = Fin 1 - fst target, res_y = snd target, isDetected = True,
                 gesture = fst g, handSpread = Some ((d / Fin 5) / ps)\<rparr>)"
    unfolding handFrame_drawn[OF cv] handFeatures_def
    by (simp add: w ps_def[symmetric] i1 i2 i3 i4 i5 c d tip Let_def)
  with i1 i2 i3 i4 i5 c d show ?thesis
    unfolding ps_def by blast
qed

lemma minus_Fin [simp]: "Fin a - Fin b = Fin (a - b)"
  by (simp add: minus_jsnum_def)

lemma hypot_axis: "hypot (Fin 0) (Fin b) = Fin \<bar>b\<bar>"
  by simp



subsection \<open>Frames with a hand\<close>

lemma length_pointingHand: "length pointingHand = 21"
  by (simp add: pointingHand_def flatHand_def)

lemma processVideoFrame_hand:
  "handLandmarker \<Longrightarrow> videoWidth \<noteq> 0 \<Longrightarrow> videoHeight \<noteq> 0 \<Longrightarrow>
   handFrame landmarks debugCanvas = Some r \<Longrightarrow>
   outcome (processVideoFrame handLandmarker videoWidth videoHeight
              (Detected (landmarks # hands)) debugCanvas) = Some r"
  by (simp add: processVideoFrame_def tryBlock_def)

lemma processVideoFrame_short:
  "length landmarks < 21 \<Longrightarrow>
   outcome (processVideoFrame handLandmarker videoWidth videoHeight
              (Detected (landmarks # hands)) debugCanvas) = Some noResult"
  by (simp add: processVideoFrame_def tryBlock_def handFrame_short)


subsection \<open>Poses that differ in depth only\<close>

lemma landmarkAt_map:
  "landmarkAt (map f landmarks) i = map_option f (landmarkAt landmarks i)"
  by (simp add: landmarkAt_def)

lemma isFingerExtended_z:
  "isFingerExtended (map (\<lambda>l. l\<lparr>lm_z := v\<rparr>) landmarks) tipIdx pipIdx palmScale
     = isFingerExtended landmarks tipIdx pipIdx palmScale"
  by (simp add: isFingerExtended_def landmarkAt_def Let_def)

lemma isThumbExtended_z:
  "isThumbExtended (map (\<lambda>l. l\<lparr>lm_z := v\<rparr>) landmarks) palmScale
     = isThumbExtended landmarks palmScale"
  by (simp add: isThumbExtended_def landmarkAt_def Let_def)

lemma sumCoords_z:
  "sumCoords (map (\<lambda>l. l\<lparr>lm_z := v\<rparr>) landmarks) ids acc = sumCoords landmarks ids acc"
  by (induction ids arbitrary: acc) (simp_all add: landmarkAt_def)

lemma sumDist_z:
  "sumDist (map (\<lambda>l. l\<lparr>lm_z := v\<rparr>) landmarks) ids c acc = sumDist landmarks ids c acc"
  by (induction ids arbitrary: acc) (simp_all add: landmarkAt_def)

lemma calculateCentroid_z:
  "calculateCentroid (map (\<lambda>l. l\<lparr>lm_z := v\<rparr>) landmarks) ids = calculateCentroid landmarks ids"
  by (simp add: calculateCentroid_def sumCoords_z)

lemma bind_landmarkAt_map:
  "landmarkAt (map f landmarks) i \<bind> g = landmarkAt landmarks i \<bind> (\<lambda>l. g (f l))"
  by (simp add: landmarkAt_def)

lemma handFeatures_z:
  "handFeatures (map (\<lambda>l. l\<lparr>lm_z := v\<rparr>) landmarks) = handFeatures landmarks"
  by (simp add: handFeatures_def isFingerExtended_z isThumbExtended_z calculateCentroid_z
        sumDist_z bind_landmarkAt_map Let_def cong del: if_weak_cong)

lemma handFrame_z:
  "handFrame (map (\<lambda>l. l\<lparr>lm_z := v\<rparr>) landmarks) debugCanvas = handFrame landmarks debugCanvas"
  by (simp add: handFrame_def handFeatures_z)

lemma handEvents_z:
  "handEvents (map (\<lambda>l. l\<lparr>lm_z := v\<rparr>) landmarks) debugCanvas = handEvents landmarks debugCanvas"
  by (simp add: handEvents_def handFeatures_z)

lemma same_xy_same_flat:
  assumes "map lm_x (a :: landmark list) = map lm_x b" and "map lm_y a = map lm_y b"
  shows "map (\<lambda>l. l\<lparr>lm_z := v\<rparr>) a = map (\<lambda>l. l\<lparr>lm_z := v\<rparr>) b"
  using assms
proof (induction a arbitrary: b)
  case Nil
  then show ?case by simp
next
  case (Cons l a)
  then obtain l' b' where b: "b = l' # b'" by (cases b) auto
  with Cons.prems have "lm_x l = lm_x l'" "lm_y l = lm_y l'" by simp_all
  then have "l\<lparr>lm_z := v\<rparr> = l'\<lparr>lm_z := v\<rparr>" by (cases l, cases l') simp
  moreover have "map (\<lambda>l. l\<lparr>lm_z := v\<rparr>) a = map (\<lambda>l. l\<lparr>lm_z := v\<rparr>) b'"
    using Cons.IH[of b'] Cons.prems b by simp
  ultimately show ?case using b by simp
qed

section \<open>Properties of the gesture effect: auxiliary facts\<close>

subsection \<open>The remapped spread and the refs after one run\<close>

lemma js_min_Fin: "js_min (Fin a) (Fin b) = Fin (min a b)"
  by (simp add: min_def)

lemma js_max_Fin: "js_max (Fin a) (Fin b) = Fin (max a b)"
  by (simp add: max_def)

lemma remapSpread_Fin:
  "remapSpread (Some (Fin h)) = Fin (max 0 (min 1 ((h - 0.35) / 0.65)))"
  by (simp add: remapSpread_def js_min_Fin js_max_Fin del: js_min.simps js_max.simps)

lemma remapSpread_range: "\<exists>r. remapSpread hs = Fin r \<and> 0 \<le> r \<and> r \<le> 1"
proof (cases hs)
  case None
  then show ?thesis by (simp add: remapSpread_def)
next
  case (Some v)
  show ?thesis
  proof (cases v)
    case (Fin h)
    with Some show ?thesis by (simp add: remapSpread_Fin)
  qed (simp_all add: Some remapSpread_def minus_jsnum_def)
qed

lemma not_both_triggers: "Fin 2 < v \<Longrightarrow> \<not> v < Fin (- 1)"
  by (cases v) simp_all

lemma remapSpread_zero [simp]: "remapSpread (Some (Fin 0)) = Fin 0"
  by (simp add: remapSpread_def)

lemma remapSpread_one [simp]: "remapSpread (Some (Fin 1)) = Fin 1"
  by (simp add: remapSpread_def)

lemma jsnum_le_not_less: "(a :: jsnum) \<le> b \<Longrightarrow> \<not> b < a"
  by (cases a; cases b) simp_all

lemma gestureEffect_not_ready: "\<not> refsReady s \<Longrightarrow> gestureEffect s trackingResult now = s"
  by (simp add: gestureEffect_def)

lemma refsReady_gestureEffect [simp]:
  "refsReady (gestureEffect s trackingResult now) = refsReady s"
  by (simp add: gestureEffect_def zoom_def velocitySwitch_def switchFormation_def
        cameraSteer_def Let_def)

lemma stateRef_gestureEffect:
  "refsReady s \<Longrightarrow>
   stateRef (gestureEffect s trackingResult now) =
     (if Fin 0.1 < timeDeltaOf s now \<and> 800 < now - lastSwitchTimeRef s
      then specNextState (stateRef s) (velocityOf s trackingResult now)
      else stateRef s)"
  using not_both_triggers[of "velocityOf s trackingResult now"]
  by (cases "stateRef s")
     (auto simp add: gestureEffect_def zoom_def velocitySwitch_def switchFormation_def
        cameraSteer_def timeDeltaOf_def velocityOf_def specNextState_def Let_def)

lemma lastSwitchTimeRef_gestureEffect:
  "lastSwitchTimeRef (gestureEffect s trackingResult now) =
     (if stateRef (gestureEffect s trackingResult now) \<noteq> stateRef s then now
      else lastSwitchTimeRef s)"
  by (cases "stateRef s")
     (simp_all add: gestureEffect_def zoom_def velocitySwitch_def switchFormation_def
        cameraSteer_def Let_def)

lemma lastSpreadRef_gestureEffect:
  "refsReady s \<Longrightarrow>
   lastSpreadRef (gestureEffect s trackingResult now) =
     (if Fin 0.1 < timeDeltaOf s now then remapSpread (handSpread trackingResult)
      else lastSpreadRef s)"
  by (simp add: gestureEffect_def zoom_def velocitySwitch_def switchFormation_def
        cameraSteer_def timeDeltaOf_def Let_def)

lemma lastVelocityTimeRef_gestureEffect:
  "refsReady s \<Longrightarrow>
   lastVelocityTimeRef (gestureEffect s trackingResult now) =
     (if Fin 0.1 < timeDeltaOf s now then now else lastVelocityTimeRef s)"
  by (simp add: gestureEffect_def zoom_def velocitySwitch_def switchFormation_def
        cameraSteer_def timeDeltaOf_def Let_def)

lemma autoRotate_gestureEffect:
  "refsReady s \<Longrightarrow>
   autoRotate (gestureEffect s trackingResult now) =
     (\<not> (gesture trackingResult = ''POINTING'' \<and> isDetected trackingResult))"
  by (simp add: gestureEffect_def cameraSteer_def Let_def)

subsection \<open>Runs that keep the formation\<close>

lemma calm_keeps: "calm s frames \<Longrightarrow> stateRef (runEffects s frames) = stateRef s"
proof (induction frames arbitrary: s)
  case Nil
  then show ?case by simp
next
  case (Cons f fs)
  have step: "stateRef (gestureEffect s (fst f) (snd f)) = stateRef s"
  proof (cases "refsReady s")
    case False
    then show ?thesis by (simp add: gestureEffect_not_ready)
  next
    case True
    show ?thesis
    proof (cases "Fin 0.1 < timeDeltaOf s (snd f)")
      case False
      with True show ?thesis by (simp add: stateRef_gestureEffect)
    next
      case td: True
      with Cons.prems have "Fin (- 1) \<le> velocityOf s (fst f) (snd f)"
        and "velocityOf s (fst f) (snd f) \<le> Fin 2" by simp_all
      then have "\<not> velocityOf s (fst f) (snd f) < Fin (- 1)"
        and "\<not> Fin 2 < velocityOf s (fst f) (snd f)"
        by (simp_all add: jsnum_le_not_less)
      with True show ?thesis by (simp add: stateRef_gestureEffect specNextState_def)
    qed
  qed
  from Cons.prems have "calm (gestureEffect s (fst f) (snd f)) fs" by simp
  then have "stateRef (runEffects (gestureEffect s (fst f) (snd f)) fs)
             = stateRef (gestureEffect s (fst f) (snd f))"
    by (rule Cons.IH)
  with step show ?case by simp
qed

lemma cooldown_keeps:
  "\<forall>f \<in> set frames. snd f - lastSwitchTimeRef s \<le> 800 \<Longrightarrow>
   stateRef (runEffects s frames) = stateRef s"
proof (induction frames arbitrary: s)
  case Nil
  then show ?case by simp
next
  case (Cons f fs)
  from Cons.prems have "\<not> 800 < snd f - lastSwitchTimeRef s" by simp
  then have step: "stateRef (gestureEffect s (fst f) (snd f)) = stateRef s"
    by (cases "refsReady s") (simp_all add: gestureEffect_not_ready stateRef_gestureEffect)
  then have "lastSwitchTimeRef (gestureEffect s (fst f) (snd f)) = lastSwitchTimeRef s"
    by (simp add: lastSwitchTimeRef_gestureEffect)
  with Cons.prems
  have "\<forall>g \<in> set fs. snd g - lastSwitchTimeRef (gestureEffect s (fst f) (snd f)) \<le> 800"
    by simp
  then have "stateRef (runEffects (gestureEffect s (fst f) (snd f)) fs)
             = stateRef (gestureEffect s (fst f) (snd f))"
    by (rule Cons.IH)
  with step show ?case by simp
qed

subsection \<open>Reachable scenes and frames without a hand\<close>

lemma switchFormation_tree:
  "stateRef s = TREE \<Longrightarrow> Fin 2 < velocity \<Longrightarrow>
   stateRef (switchFormation s velocity now) = EXPLODE \<and>
   \<not> autoRotate (switchFormation s velocity now)"
  by (simp add: switchFormation_def Let_def)

lemma reachable_ready: "reachable s \<Longrightarrow> refsReady s"
  by (induction rule: reachable.induct) (simp_all add: initialScene_def)

lemma reachable_lastSpread:
  "reachable s \<Longrightarrow> \<exists>r. lastSpreadRef s = Fin r \<and> 0 \<le> r \<and> r \<le> 1"
proof (induction rule: reachable.induct)
  case (mount t0)
  then show ?case by (simp add: initialScene_def)
next
  case (effect s trackingResult now)
  then show ?case
    using remapSpread_range[of "handSpread trackingResult"]
    by (cases "refsReady s") (auto simp: gestureEffect_not_ready lastSpreadRef_gestureEffect)
next
  case (orbit s p)
  then show ?case by simp
qed

lemma absent_step:
  assumes r: "lastSpreadRef s = Fin r" "0 \<le> r" and c: "stateRef s \<noteq> EXPLODE \<or> r = 0"
  shows "stateRef (gestureEffect s noResult now) = stateRef s \<and>
         (\<exists>r'. lastSpreadRef (gestureEffect s noResult now) = Fin r' \<and> 0 \<le> r' \<and>
               (stateRef s \<noteq> EXPLODE \<or> r' = 0))"
proof (cases "refsReady s")
  case False
  with r c show ?thesis by (simp add: gestureEffect_not_ready)
next
  case True
  show ?thesis
  proof (cases "Fin 0.1 < timeDeltaOf s now")
    case False
    with True r c show ?thesis
      by (simp add: stateRef_gestureEffect lastSpreadRef_gestureEffect)
  next
    case td: True
    then have "velocityOf s noResult now
               = Fin (- r / (real_of_int (now - lastVelocityTimeRef s) / 1000))"
      and pos: "0 < real_of_int (now - lastVelocityTimeRef s) / 1000"
      using r by (simp_all add: velocityOf_def timeDeltaOf_def noResult_def)
    moreover from pos r have "- r / (real_of_int (now - lastVelocityTimeRef s) / 1000) \<le> 0"
      by (simp add: divide_nonpos_pos)
    ultimately have v: "\<not> Fin 2 < velocityOf s noResult now"
      and v0: "r = 0 \<Longrightarrow> \<not> velocityOf s noResult now < Fin (- 1)"
      by simp_all
    from True v v0 c have "stateRef (gestureEffect s noResult now) = stateRef s"
      by (auto simp: stateRef_gestureEffect specNextState_def)
    moreover from True td have "lastSpreadRef (gestureEffect s noResult now) = Fin 0"
      by (simp add: lastSpreadRef_gestureEffect noResult_def)
    ultimately show ?thesis by simp
  qed
qed

lemma absent_run:
  assumes "lastSpreadRef s = Fin r" "0 \<le> r" "stateRef s \<noteq> EXPLODE \<or> r = 0"
  shows "stateRef (runEffects s (map (\<lambda>now. (noResult, now)) nows)) = stateRef s"
  using assms
proof (induction nows arbitrary: s r)
  case Nil
  then show ?case by simp
next
  case (Cons now nows)
  from absent_step[OF Cons.prems, of now]
  obtain r' where st: "stateRef (gestureEffect s noResult now) = stateRef s"
    and r': "lastSpreadRef (gestureEffect s noResult now) = Fin r'" "0 \<le> r'"
            "stateRef s \<noteq> EXPLODE \<or> r' = 0"
    by blast
  from r'(3) st have "stateRef (gestureEffect s noResult now) \<noteq> EXPLODE \<or> r' = 0" by simp
  from Cons.IH[OF r'(1,2) this] st show ?case by simp
qed

section \<open>Properties of the camera: auxiliary facts\<close>






lemma controlsTarget_zoom [simp]: "controlsTarget (zoom s spread) = controlsTarget s"
  by (simp add: zoom_def Let_def)

lemma cameraPosition_velocitySwitch [simp]:
  "cameraPosition (velocitySwitch s spread now timeDelta) = cameraPosition s"
  "controlsTarget (velocitySwitch s spread now timeDelta) = controlsTarget s"
  by (simp_all add: velocitySwitch_def switchFormation_def Let_def)





section \<open>The claims on the frame producer\<close>

subsection \<open>Frames without a usable pose\<close>





subsection \<open>The gesture classifier\<close>

text \<open>
  C1. For a first hand of at least 21 landmarks, on a frame that reaches the classifier
  (service initialised, video with non-zero dimensions, no raising \<open>drawDebug\<close>), the five
  finger flags are the values of \<open>isFingerExtended\<close> and \<open>isThumbExtended\<close> at the palm
  scale, and the result follows the priority order: middle, ring and pinky all not
  extended and index extended gives POINTING at landmark 8, whatever the thumb; else
  middle, ring and pinky all not extended and thumb extended gives POINTING at landmark 4;
  every other case gives GENERAL at the mean of the landmarks 4, 8, 12, 16 and 20. The
  result's \<open>x\<close> is 1 minus the target's \<open>x\<close>, its \<open>y\<close> the target's \<open>y\<close>.
\<close>

theorem gesture_priority:
  assumes "21 \<le> length landmarks" and "videoWidth \<noteq> 0" and "videoHeight \<noteq> 0"
    and "drawDebug debugCanvas = Some ()"
  shows "\<exists>isIndex isMiddle isRing isPinky isThumb r.
     isFingerExtended landmarks 8 6 (hypot (lm_x (landmarks ! 0) - lm_x (landmarks ! 9))
         (lm_y (landmarks ! 0) - lm_y (landmarks ! 9))) = Some isIndex \<and>
     isFingerExtended landmarks 12 10 (hypot (lm_x (landmarks ! 0) - lm_x (landmarks ! 9))
         (lm_y (landmarks ! 0) - lm_y (landmarks ! 9))) = Some isMiddle \<and>
     isFingerExtended landmarks 16 14 (hypot (lm_x (landmarks ! 0) - lm_x (landmarks ! 9))
         (lm_y (landmarks ! 0) - lm_y (landmarks ! 9))) = Some isRing \<and>
     isFingerExtended landmarks 20 18 (hypot (lm_x (landmarks ! 0) - lm_x (landmarks ! 9))
         (lm_y (landmarks ! 0) - lm_y (landmarks ! 9))) = Some isPinky \<and>
     isThumbExtended landmarks (hypot (lm_x (landmarks ! 0) - lm_x (landmarks ! 9))
         (lm_y (landmarks ! 0) - lm_y (landmarks ! 9))) = Some isThumb \<and>
     outcome (processVideoFrame True videoWidth videoHeight (Detected (landmarks # hands))
                debugCanvas) = Some r \<and>
     isDetected r \<and>
     (if \<not> isMiddle \<and> \<not> isRing \<and> \<not> isPinky \<and> isIndex then
        gesture r = ''POINTING'' \<and>
        res_x r = Fin 1 - lm_x (landmarks ! 8) \<and> res_y r = lm_y (landmarks ! 8)
      else if \<not> isMiddle \<and> \<not> isRing \<and> \<not> isPinky \<and> isThumb then
        gesture r = ''POINTING'' \<and>
        res_x r = Fin 1 - lm_x (landmarks ! 4) \<and> res_y r = lm_y (landmarks ! 4)
      else
        gesture r = ''GENERAL'' \<and>
        res_x r = Fin 1 - (Fin 0 + lm_x (landmarks ! 4) + lm_x (landmarks ! 8)
                    + lm_x (landmarks ! 12) + lm_x (landmarks ! 16) + lm_x (landmarks ! 20)) / Fin 5 \<and>
        res_y r = (Fin 0 + lm_y (landmarks ! 4) + lm_y (landmarks ! 8)
                    + lm_y (landmarks ! 12) + lm_y (landmarks ! 16) + lm_y (landmarks ! 20)) / Fin 5)"
proof -
  from assms(1) have len': "20 < length landmarks" by simp
  from handFrame_long[OF assms(1) assms(4)]
  obtain i1 i2 i3 i4 i5 c d where
    f: "isFingerExtended landmarks 8 6 (hypot (lm_x (landmarks ! 0) - lm_x (landmarks ! 9))
         (lm_y (landmarks ! 0) - lm_y (landmarks ! 9))) = Some i1"
     "isFingerExtended landmarks 12 10 (hypot (lm_x (landmarks ! 0) - lm_x (landmarks ! 9))
         (lm_y (landmarks ! 0) - lm_y (landmarks ! 9))) = Some i2"
     "isFingerExtended landmarks 16 14 (hypot (lm_x (landmarks ! 0) - lm_x (landmarks ! 9))
         (lm_y (landmarks ! 0) - lm_y (landmarks ! 9))) = Some i3"
     "isFingerExtended landmarks 20 18 (hypot (lm_x (landmarks ! 0) - lm_x (landmarks ! 9))
         (lm_y (landmarks ! 0) - lm_y (landmarks ! 9))) = Some i4"
     "isThumbExtended landmarks (hypot (lm_x (landmarks ! 0) - lm_x (landmarks ! 9))
         (lm_y (landmarks ! 0) - lm_y (landmarks ! 9))) = Some i5"
    and c: "calculateCentroid landmarks allTips = Some c"
    and h: "handFrame landmarks debugCanvas =
       Some (let g = gestureLogic i1 i2 i3 i4 i5;
                 target = (if fst g = ''POINTING'' \<and> snd g \<noteq> - 1
                           then (lm_x (landmarks ! nat (snd g)), lm_y (landmarks ! nat (snd g)))
                           else c)
             in \<lparr>res_x = Fin 1 - fst target, res_y = snd target, isDetected = True,
                 gesture = fst g,
                 handSpread = Some ((d / Fin 5) / hypot (lm_x (landmarks ! 0) - lm_x (landmarks ! 9))
         (lm_y (landmarks ! 0) - lm_y (landmarks ! 9)))\<rparr>)"
    by blast
  from c calculateCentroid_tips[OF len'] have c': "c = ((Fin 0 + lm_x (landmarks ! 4) + lm_x (landmarks ! 8) + lm_x (landmarks ! 12)
              + lm_x (landmarks ! 16) + lm_x (landmarks ! 20)) / Fin 5,
           (Fin 0 + lm_y (landmarks ! 4) + lm_y (landmarks ! 8) + lm_y (landmarks ! 12)
              + lm_y (landmarks ! 16) + lm_y (landmarks ! 20)) / Fin 5)"
    by simp
  have p: "outcome (processVideoFrame True videoWidth videoHeight (Detected (landmarks # hands))
                      debugCanvas) =
     Some (let g = gestureLogic i1 i2 i3 i4 i5;
                 target = (if fst g = ''POINTING'' \<and> snd g \<noteq> - 1
                           then (lm_x (landmarks ! nat (snd g)), lm_y (landmarks ! nat (snd g)))
                           else c)
             in \<lparr>res_x = Fin 1 - fst target, res_y = snd target, isDetected = True,
                 gesture = fst g,
                 handSpread = Some ((d / Fin 5) / hypot (lm_x (landmarks ! 0) - lm_x (landmarks ! 9))
         (lm_y (landmarks ! 0) - lm_y (landmarks ! 9)))\<rparr>)"
    using assms(2,3) h by (simp add: processVideoFrame_hand)
  show ?thesis
    apply (rule exI[of _ i1], rule exI[of _ i2], rule exI[of _ i3], rule exI[of _ i4],
           rule exI[of _ i5])
    apply (simp only: f p simp_thms ex_simps)
    apply (simp add: gestureLogic_def Let_def c')
    done
qed

theorem gesture_priority_witness:
  "map_option gesture (outcome (processVideoFrame True 640 480 (Detected [pointingHand]) None))
     = Some ''POINTING'' \<and>
   map_option res_x (outcome (processVideoFrame True 640 480 (Detected [pointingHand]) None))
     = Some (Fin 0.25) \<and>
   map_option res_y (outcome (processVideoFrame True 640 480 (Detected [pointingHand]) None))
     = Some (Fin 0.5)"
  using gesture_priority[of pointingHand 640 480 None "[]"]
  apply (simp add: length_pointingHand isFingerExtended_in isThumbExtended_in)
  apply (auto simp add: pointingHand_def flatHand_def hypot_axis simp del: hypot.simps(1))
  done

subsection \<open>Depth is not read\<close>

text \<open>
  C10. Two poses with the same \<open>x\<close> and the same \<open>y\<close> at every landmark, whatever their
  \<open>z\<close>, give the same run of the frame producer on the same frame, the same tracking result
  and the same events: gesture, target and spread read \<open>x\<close> and \<open>y\<close> only.
\<close>

theorem tracking_ignores_z:
  assumes "map lm_x a = map lm_x b" and "map lm_y a = map lm_y b"
  shows "processVideoFrame handLandmarker videoWidth videoHeight (Detected (a # hands)) debugCanvas
       = processVideoFrame handLandmarker videoWidth videoHeight (Detected (b # hands')) debugCanvas"
proof -
  have "handFrame a debugCanvas = handFrame (map (\<lambda>l. l\<lparr>lm_z := Fin 0\<rparr>) a) debugCanvas"
    by (simp add: handFrame_z)
  also have "\<dots> = handFrame (map (\<lambda>l. l\<lparr>lm_z := Fin 0\<rparr>) b) debugCanvas"
    using same_xy_same_flat[OF assms] by simp
  also have "\<dots> = handFrame b debugCanvas"
    by (simp add: handFrame_z)
  finally have h: "handFrame a debugCanvas = handFrame b debugCanvas" .
  have "handEvents a debugCanvas = handEvents (map (\<lambda>l. l\<lparr>lm_z := Fin 0\<rparr>) a) debugCanvas"
    by (simp add: handEvents_z)
  also have "\<dots> = handEvents (map (\<lambda>l. l\<lparr>lm_z := Fin 0\<rparr>) b) debugCanvas"
    using same_xy_same_flat[OF assms] by simp
  also have "\<dots> = handEvents b debugCanvas"
    by (simp add: handEvents_z)
  finally have e: "handEvents a debugCanvas = handEvents b debugCanvas" .
  have t: "tryEvents (Detected (a # hands)) debugCanvas
         = tryEvents (Detected (b # hands')) debugCanvas"
    using e by (simp add: tryEvents_def)
  have k: "tryBlock (Detected (a # hands)) debugCanvas
         = tryBlock (Detected (b # hands')) debugCanvas"
    using h by (simp add: tryBlock_def)
  show ?thesis
    unfolding processVideoFrame_def t k by (rule refl)
qed

theorem tracking_ignores_z_witness:
  "processVideoFrame True 640 480 (Detected [pointingHand]) None
     = processVideoFrame True 640 480
         (Detected [map (\<lambda>l. l\<lparr>lm_z := PInf\<rparr>) pointingHand]) None"
  using tracking_ignores_z[of pointingHand "map (\<lambda>l. l\<lparr>lm_z := PInf\<rparr>) pointingHand"
           True 640 480 "[]" None "[]"]
  by (simp add: comp_def)

subsection \<open>Malformed poses\<close>

text \<open>
  C8, as the claim states it, fails: the pointing hand whose index tip has \<open>x = NaN\<close> has
  a non-finite coordinate, and the frame producer reports it as detected, with \<open>x = NaN\<close>
  and \<open>handSpread = NaN\<close>.
\<close>

theorem nonfinite_pose_counterexample:
  "\<not> isFinite (lm_x (nanHand ! 8)) \<and>
   map_option isDetected (outcome (processVideoFrame True 640 480 (Detected [nanHand]) None))
     = Some True \<and>
   map_option res_x (outcome (processVideoFrame True 640 480 (Detected [nanHand]) None))
     = Some NaN \<and>
   map_option handSpread (outcome (processVideoFrame True 640 480 (Detected [nanHand]) None))
     = Some (Some NaN)"
  by (simp add: processVideoFrame_def tryBlock_def handFrame_def handFeatures_def
        isFingerExtended_def isThumbExtended_def calculateCentroid_def allTips_def
        landmarkAt_def gestureLogic_def nanHand_def pointingHand_def flatHand_def hypot_axis
        minus_jsnum_def Let_def del: hypot.simps(1))

text \<open>
  C8, amended. For a first hand of fewer than 21 landmarks the feature extraction raises,
  at the read of a missing landmark, and the frame producer returns the neutral
  no-detection result. Coordinates are not checked: on a frame that reaches the
  classifier, a hand of at least 21 landmarks is returned with \<open>isDetected = true\<close>,
  whatever its coordinates.
\<close>

theorem short_pose_neutral:
  "(length landmarks < 21 \<longrightarrow>
      handFeatures landmarks = None \<and>
      outcome (processVideoFrame handLandmarker videoWidth videoHeight
                 (Detected (landmarks # hands)) debugCanvas) = Some noResult) \<and>
   (21 \<le> length landmarks \<and> handLandmarker \<and> videoWidth \<noteq> 0 \<and> videoHeight \<noteq> 0 \<and>
    drawDebug debugCanvas = Some () \<longrightarrow>
      (\<exists>r. outcome (processVideoFrame handLandmarker videoWidth videoHeight
                      (Detected (landmarks # hands)) debugCanvas) = Some r \<and>
           isDetected r))"
proof -
  let ?run = "processVideoFrame handLandmarker videoWidth videoHeight
                (Detected (landmarks # hands)) debugCanvas"
  have short: "handFeatures landmarks = None \<and> outcome ?run = Some noResult"
    if "length landmarks < 21"
    using that by (simp add: handFeatures_short processVideoFrame_short)
  have long: "\<exists>r. outcome ?run = Some r \<and> isDetected r"
    if a: "21 \<le> length landmarks \<and> handLandmarker \<and> videoWidth \<noteq> 0 \<and> videoHeight \<noteq> 0 \<and>
           drawDebug debugCanvas = Some ()"
  proof -
    from a obtain r where r: "handFrame landmarks debugCanvas = Some r" and d: "isDetected r"
      using handFrame_long[of landmarks debugCanvas] by (auto simp: Let_def)
    with a have "outcome ?run = Some r" by (simp add: processVideoFrame_hand)
    with d show ?thesis by blast
  qed
  from short long show ?thesis by blast
qed

theorem short_pose_neutral_witness:
  "handFeatures (take 20 pointingHand) = None \<and>
   outcome (processVideoFrame True 640 480 (Detected [take 20 pointingHand]) None)
     = Some noResult \<and>
   map_option isDetected (outcome (processVideoFrame True 640 480 (Detected [nanHand]) None))
     = Some True"
proof -
  have n: "length nanHand = 21"
    by (simp add: nanHand_def pointingHand_def flatHand_def)
  from short_pose_neutral[of "take 20 pointingHand" True 640 480 "[]" None]
  have "handFeatures (take 20 pointingHand) = None"
    and "outcome (processVideoFrame True 640 480 (Detected [take 20 pointingHand]) None)
           = Some noResult"
    by (simp_all add: length_pointingHand)
  moreover from short_pose_neutral[of nanHand True 640 480 "[]" None] n
  have "map_option isDetected (outcome (processVideoFrame True 640 480 (Detected [nanHand]) None))
          = Some True"
    by auto
  ultimately show ?thesis by simp
qed

section \<open>The claims on the formation state machine\<close>

subsection \<open>The step function\<close>

text \<open>
  C2. The machine starts in Tree. When the velocity is defined (more than 0.1 s since the
  last sample) and the cooldown is over (more than 800 ms since the last switch), one
  run of the effect takes the formation to what the transition table gives for the
  velocity of the remapped spread: above 2, Tree to Explode and Text to Tree; below -1,
  Explode to Text; the formation stays in every other case. A run of frames whose
  velocities all lie between -1 and 2 ends in the formation it began in.
\<close>

theorem formation_step:
  "stateRef (initialScene t0) = TREE \<and>
   (refsReady s \<and> Fin 0.1 < timeDeltaOf s now \<and> 800 < now - lastSwitchTimeRef s \<longrightarrow>
      stateRef (gestureEffect s trackingResult now)
        = specNextState (stateRef s) (velocityOf s trackingResult now)) \<and>
   (calm s frames \<longrightarrow> stateRef (runEffects s frames) = stateRef s)"
  by (simp add: initialScene_def stateRef_gestureEffect calm_keeps)

theorem formation_step_witness:
  "stateRef (gestureEffect (initialScene 1000) openHand 1200) = EXPLODE \<and>
   stateRef (runEffects (initialScene 1000) [(noResult, 1200), (openHand, 2200)]) = TREE"
  using formation_step[of 1000 "initialScene 1000" 1200 openHand
          "[(noResult, 1200), (openHand, 2200)]"]
  by (simp add: initialScene_def openHand_def noResult_def timeDeltaOf_def velocityOf_def
        specNextState_def lastSpreadRef_gestureEffect lastVelocityTimeRef_gestureEffect)

subsection \<open>The cooldown\<close>

text \<open>
  C4. A run of the effect changes the formation only if more than 800 ms have passed
  since the last switch, and it then records its own time as the last switch. After a
  run that changed the formation at time \<open>now\<close>, no frame up to 800 ms after \<open>now\<close>
  changes it again, whatever it carries: of two triggers less than 800 ms apart only the
  first one switches.
\<close>

theorem cooldown_gate:
  "(stateRef (gestureEffect s trackingResult now) \<noteq> stateRef s \<longrightarrow>
      800 < now - lastSwitchTimeRef s \<and>
      lastSwitchTimeRef (gestureEffect s trackingResult now) = now) \<and>
   (stateRef (gestureEffect s trackingResult now) \<noteq> stateRef s \<and>
    (\<forall>f \<in> set frames. snd f - now \<le> 800) \<longrightarrow>
      (\<forall>k. stateRef (runEffects (gestureEffect s trackingResult now) (take k frames))
             = stateRef (gestureEffect s trackingResult now)))"
proof (intro conjI impI allI)
  assume a: "stateRef (gestureEffect s trackingResult now) \<noteq> stateRef s"
  then have "refsReady s"
    by (cases "refsReady s") (simp_all add: gestureEffect_not_ready)
  with a show "800 < now - lastSwitchTimeRef s"
    by (auto simp: stateRef_gestureEffect split: if_splits)
  from a show "lastSwitchTimeRef (gestureEffect s trackingResult now) = now"
    by (simp add: lastSwitchTimeRef_gestureEffect)
next
  fix k
  assume a: "stateRef (gestureEffect s trackingResult now) \<noteq> stateRef s \<and>
             (\<forall>f \<in> set frames. snd f - now \<le> 800)"
  then have l: "lastSwitchTimeRef (gestureEffect s trackingResult now) = now"
    by (simp add: lastSwitchTimeRef_gestureEffect)
  have "\<forall>f \<in> set (take k frames).
          snd f - lastSwitchTimeRef (gestureEffect s trackingResult now) \<le> 800"
    using a l by (auto dest: in_set_takeD)
  then show "stateRef (runEffects (gestureEffect s trackingResult now) (take k frames))
             = stateRef (gestureEffect s trackingResult now)"
    by (rule cooldown_keeps)
qed

theorem cooldown_gate_witness:
  "stateRef (gestureEffect (initialScene 1000) openHand 1200) = EXPLODE \<and>
   velocityOf (gestureEffect (initialScene 1000) openHand 1200) noResult 1400 < Fin (- 1) \<and>
   stateRef (runEffects (gestureEffect (initialScene 1000) openHand 1200) [(noResult, 1400)])
     = EXPLODE"
  using cooldown_gate[of "initialScene 1000" openHand 1200 "[(noResult, 1400)]"]
  by (simp add: initialScene_def openHand_def noResult_def timeDeltaOf_def velocityOf_def
        specNextState_def stateRef_gestureEffect lastSpreadRef_gestureEffect
        lastVelocityTimeRef_gestureEffect)


subsection \<open>Auto-rotation after a switch\<close>

text \<open>
  C6, as the claim states it, fails: from the mounted scene in Tree, a hand that opens
  fast and is seen as a general gesture takes the machine to Explode, and the auto-rotate
  flag is enabled at the end of that run of the effect.
\<close>

theorem autorotate_counterexample:
  "stateRef (initialScene 1000) = TREE \<and>
   Fin 0.1 < timeDeltaOf (initialScene 1000) 1200 \<and>
   800 < 1200 - lastSwitchTimeRef (initialScene 1000) \<and>
   Fin 2 < velocityOf (initialScene 1000) openHand 1200 \<and>
   stateRef (gestureEffect (initialScene 1000) openHand 1200) = EXPLODE \<and>
   autoRotate (gestureEffect (initialScene 1000) openHand 1200)"
  by (simp add: initialScene_def openHand_def timeDeltaOf_def velocityOf_def
        specNextState_def stateRef_gestureEffect autoRotate_gestureEffect)

text \<open>
  C6, amended. After a run of the effect in Tree in which the velocity exceeds 2, the
  cooldown being over and the velocity defined, the machine is in Explode and the time of
  the switch is recorded. The switch itself disables auto-rotation, but the camera
  steering at the end of the same run sets the flag again: at the end of the run
  auto-rotation is disabled exactly when the gesture is POINTING and a hand is detected.
\<close>

theorem tree_to_explode:
  assumes "refsReady s" and "stateRef s = TREE"
    and "Fin 0.1 < timeDeltaOf s now" and "800 < now - lastSwitchTimeRef s"
    and "Fin 2 < velocityOf s trackingResult now"
  shows "stateRef (gestureEffect s trackingResult now) = EXPLODE \<and>
         lastSwitchTimeRef (gestureEffect s trackingResult now) = now \<and>
         \<not> autoRotate (switchFormation s (velocityOf s trackingResult now) now) \<and>
         (autoRotate (gestureEffect s trackingResult now) \<longleftrightarrow>
            \<not> (gesture trackingResult = ''POINTING'' \<and> isDetected trackingResult))"
proof -
  from assms have st: "stateRef (gestureEffect s trackingResult now) = EXPLODE"
    by (simp add: stateRef_gestureEffect specNextState_def)
  with assms(2) have "lastSwitchTimeRef (gestureEffect s trackingResult now) = now"
    by (simp add: lastSwitchTimeRef_gestureEffect)
  with st assms show ?thesis
    by (simp add: switchFormation_tree autoRotate_gestureEffect)
qed

theorem tree_to_explode_witness:
  "stateRef (gestureEffect (initialScene 1000) (openHand\<lparr>gesture := ''POINTING''\<rparr>) 1200) = EXPLODE \<and>
   \<not> autoRotate (gestureEffect (initialScene 1000) (openHand\<lparr>gesture := ''POINTING''\<rparr>) 1200)"
  using tree_to_explode[of "initialScene 1000" 1200 "openHand\<lparr>gesture := ''POINTING''\<rparr>"]
  by (simp add: initialScene_def openHand_def timeDeltaOf_def velocityOf_def)

subsection \<open>Frames without a hand\<close>

text \<open>
  C7, as the claim states it, fails: the scene after a hand has opened fast and stayed
  open is reachable and in Explode; the hand then leaves, every frame of the next ten
  gives the neutral result, and the machine ends in Text. The neutral result carries
  \<open>handSpread = 0\<close>, which the effect reads as a hand that closed fast. And with a debug
  canvas whose clearing raises, a frame without a hand returns no result at all.
\<close>

theorem absent_hand_counterexample:
  "reachable explodedScene \<and> stateRef explodedScene = EXPLODE \<and>
   outcome (processVideoFrame True 640 480 (Detected []) None) = Some noResult \<and>
   outcome (processVideoFrame True 640 480 (Detected []) (Some ContextThrows)) = None \<and>
   stateRef (runEffects explodedScene
     [(noResult, 2300), (noResult, 2320), (noResult, 2340), (noResult, 2360), (noResult, 2380),
      (noResult, 2400), (noResult, 2420), (noResult, 2440), (noResult, 2460), (noResult, 2480)])
     = TEXT"
proof -
  let ?s1 = "gestureEffect (initialScene 1000) openHand 1200"
  let ?s2 = "gestureEffect ?s1 openHand 2100"
  let ?s3 = "gestureEffect ?s2 noResult 2300"
  have e: "explodedScene = ?s2" by (simp add: explodedScene_def)
  have reach: "reachable ?s2"
    by (intro reachable.effect reachable.mount)
  have s1: "stateRef ?s1 = EXPLODE" "lastSpreadRef ?s1 = Fin 1" "lastSwitchTimeRef ?s1 = 1200"
    "lastVelocityTimeRef ?s1 = 1200" "refsReady ?s1"
    by (simp_all add: initialScene_def openHand_def timeDeltaOf_def velocityOf_def
        specNextState_def stateRef_gestureEffect lastSpreadRef_gestureEffect
        lastSwitchTimeRef_gestureEffect lastVelocityTimeRef_gestureEffect)
  have s2: "stateRef ?s2 = EXPLODE" "lastSpreadRef ?s2 = Fin 1" "lastSwitchTimeRef ?s2 = 1200"
    "lastVelocityTimeRef ?s2 = 2100" "refsReady ?s2"
    using s1
    by (simp_all add: openHand_def timeDeltaOf_def velocityOf_def
        specNextState_def stateRef_gestureEffect lastSpreadRef_gestureEffect
        lastSwitchTimeRef_gestureEffect lastVelocityTimeRef_gestureEffect)
  have s3: "stateRef ?s3 = TEXT" "lastSpreadRef ?s3 = Fin 0"
    using s2
    by (simp_all add: noResult_def timeDeltaOf_def velocityOf_def
        specNextState_def stateRef_gestureEffect lastSpreadRef_gestureEffect)
  have "stateRef (runEffects ?s3 (map (\<lambda>now. (noResult, now))
          [2320, 2340, 2360, 2380, 2400, 2420, 2440, 2460, 2480])) = stateRef ?s3"
    by (rule absent_run[where r = 0]) (simp_all add: s3)
  then have run: "stateRef (runEffects ?s2
     [(noResult, 2300), (noResult, 2320), (noResult, 2340), (noResult, 2360), (noResult, 2380),
      (noResult, 2400), (noResult, 2420), (noResult, 2440), (noResult, 2460), (noResult, 2480)])
     = TEXT"
    by (simp add: s3)
  have p: "outcome (processVideoFrame True 640 480 (Detected []) None) = Some noResult"
    "outcome (processVideoFrame True 640 480 (Detected []) (Some ContextThrows)) = None"
    by (simp_all add: processVideoFrame_def tryBlock_def)
  from reach s2(1) run p show ?thesis
    unfolding e by simp
qed

text \<open>
  C7, amended. A frame without a hand, with no debug canvas or with one that can be
  cleared without raising, gives the neutral result \<open>{x: 0.5, y: 0.5, isDetected: false,
  gesture: NONE, handSpread: 0}\<close>. From a reachable scene that is in Tree or in Text, or
  whose last sampled spread is 0, a run of any number of such frames, at any times,
  leaves the formation as it was.
\<close>

theorem absent_hand_run:
  assumes "reachable s" and "stateRef s \<noteq> EXPLODE \<or> lastSpreadRef s = Fin 0"
    and "debugCanvas \<noteq> Some ContextThrows"
  shows "\<exists>r. outcome (processVideoFrame handLandmarker videoWidth videoHeight (Detected [])
                       debugCanvas) = Some r \<and>
             r = \<lparr>res_x = Fin 0.5, res_y = Fin 0.5, isDetected = False, gesture = ''NONE'',
                  handSpread = Some (Fin 0)\<rparr> \<and>
             stateRef (runEffects s (map (\<lambda>now. (r, now)) nows)) = stateRef s"
proof -
  have clear: "clearCanvas c = Some ()" if "c \<noteq> ContextThrows" for c
    using that by (cases c) simp_all
  have p: "outcome (processVideoFrame handLandmarker videoWidth videoHeight (Detected [])
                      debugCanvas) = Some noResult"
    using assms(3) by (auto simp: processVideoFrame_def tryBlock_def clear split: option.splits)
  from reachable_lastSpread[OF assms(1)]
  obtain r where r: "lastSpreadRef s = Fin r" "0 \<le> r" by blast
  with assms(2) have "stateRef s \<noteq> EXPLODE \<or> r = 0" by auto
  from absent_run[OF r this, of nows] p show ?thesis
    by (simp add: noResult_def)
qed

theorem absent_hand_run_witness:
  "outcome (processVideoFrame True 640 480 (Detected []) (Some DrawOk)) = Some noResult \<and>
   stateRef (runEffects (gestureEffect (initialScene 1000) openHand 2200)
      (map (\<lambda>now. (noResult, now))
         [2300, 2320, 2340, 2360, 2380, 2400, 2420, 2440, 2460, 2480])) = TREE"
proof -
  let ?s = "gestureEffect (initialScene 1000) openHand 2200"
  let ?nows = "[2300, 2320, 2340, 2360, 2380, 2400, 2420, 2440, 2460, 2480] :: int list"
  have reach: "reachable ?s"
    by (intro reachable.effect reachable.mount)
  have st: "stateRef ?s = TREE"
    by (simp add: initialScene_def openHand_def timeDeltaOf_def velocityOf_def
          specNextState_def stateRef_gestureEffect)
  then have cond: "stateRef ?s \<noteq> EXPLODE \<or> lastSpreadRef ?s = Fin 0"
    by simp
  have cv: "Some DrawOk \<noteq> Some ContextThrows" by simp
  from absent_hand_run[OF reach cond cv, of True 640 480 ?nows]
  obtain r where o: "outcome (processVideoFrame True 640 480 (Detected []) (Some DrawOk)) = Some r"
    and r: "r = \<lparr>res_x = Fin 0.5, res_y = Fin 0.5, isDetected = False, gesture = ''NONE'',
                 handSpread = Some (Fin 0)\<rparr>"
    and run: "stateRef (runEffects ?s (map (\<lambda>now. (r, now)) ?nows)) = stateRef ?s"
    by blast
  from r have n: "r = noResult" by (simp add: noResult_def)
  from o run show ?thesis
    unfolding n st by (rule conjI)
qed

section \<open>The claims on the camera\<close>



end
